theory Spec2Isabelle
  imports Complex_Main
begin

section \<open>The cell-cycle state machine of \<open>cell_type.py\<close>\<close>

text \<open>
  A shallow embedding of \<open>src/cell_type.py\<close>: the metaclass
  \<open>CellTypeAttributesMeta\<close>, the abstract base class \<open>AbstractCellType\<close> and the
  concrete class \<open>GenericCell\<close>.

  Conventions of the embedding.
  \<^item> Python floats are modelled as \<^typ>\<open>real\<close>, Python ints as \<^typ>\<open>int\<close>. The
    arithmetic of the model is exact: rounding, infinities and NaN are outside it, and
    nothing here is a statement about the accumulated value of a sum of doubles. The
    control flow of the handlers (comparisons, raises, assignments) does not depend
    on it.
  \<^item> \<open>current_phase\<close> is a Python string and stays a \<^typ>\<open>string\<close>: the dispatcher
    compares it with \<open>"G0"\<close>, \<open>"G1"\<close>, \<open>"S"\<close> and sends every other value to the
    M handler.
  \<^item> A method mutates its object. A handler that can raise returns
    \<open>Inl (e, c)\<close> when it raises \<open>e\<close>, where \<open>c\<close> is the object as the assignments
    executed before the raise left it, and \<open>Inr c\<close> when it returns.
  \<^item> A Python call binds positional arguments to parameters and raises
    \<open>TypeError\<close> when their numbers differ. Functions whose call sites pass a
    different number of arguments than the \<open>def\<close> declares take their positional
    arguments as a list, and the list pattern is the parameter list of the \<open>def\<close>.
  \<^item> \<open>np.random.normal(loc, scale)\<close> is \<open>loc + scale * z\<close> for a standard normal
    draw \<open>z\<close>; the draw is a parameter of the model.
\<close>

subsection \<open>Errors\<close>

datatype error =
    TypeError string
  | ZeroDivisionError
  | ValueError string
  | AttributeError string
  | NotImplementedError string

subsection \<open>The cell body\<close>

text \<open>
  Modelled from the spec: the class \<open>CellBody\<close> of module \<open>cell_body\<close>, which
  \<open>cell_type.py\<close> imports and which is not among the sources. Section 6 of the spec
  gives its interface: \<open>getSubstanceLevel(name) -> float\<close>,
  \<open>isContactInhibited() -> bool\<close> and \<open>changeVolume(newVolume) -> void\<close>. The body is
  a record of what these calls read and write. The source reaches the volume setter
  under two names, \<open>change_vol\<close> (in \<open>g1_phase\<close>) and \<open>change_volume\<close> (in
  \<open>m_phase\<close>); both are taken to be the setter of the spec.
\<close>

record cell_body =
  substance :: "string \<Rightarrow> real"
  contact_inhibited :: bool
  vol :: real

definition get_substance_level :: "cell_body \<Rightarrow> string \<Rightarrow> real" where
  "get_substance_level b name = substance b name"

text \<open>
  \<open>is_contact_inhibited\<close> is a method: the attribute is a callable, and calling it
  (with no argument) gives the flag.
\<close>

definition is_contact_inhibited :: "cell_body \<Rightarrow> unit \<Rightarrow> bool" where
  "is_contact_inhibited b = (\<lambda>_. contact_inhibited b)"

text \<open>
  The truth value Python gives a bound method object in a boolean context: a method
  object defines neither \<open>__bool__\<close> nor \<open>__len__\<close>, so it is always true.
\<close>

definition truth_of_method :: "(unit \<Rightarrow> bool) \<Rightarrow> bool" where
  "truth_of_method m = True"

definition change_vol :: "cell_body \<Rightarrow> real \<Rightarrow> cell_body" where
  "change_vol b v = b\<lparr>vol := v\<rparr>"

definition change_volume :: "cell_body \<Rightarrow> real \<Rightarrow> cell_body" where
  "change_volume b v = b\<lparr>vol := v\<rparr>"

subsection \<open>Cell types and cell instances\<close>

text \<open>
  The class attributes a phase handler of \<open>GenericCell\<close> reads through \<open>self\<close>: the
  five required constants and the two thresholds (the source spells the second
  \<open>hypoxia_theshold\<close>). A subclass of \<open>GenericCell\<close> may override them.
\<close>

record cell_type =
  seed_radius :: real
  mean_cyc_len :: real
  std_dev_cyc_len :: real
  does_age :: bool
  lifespan :: int
  g0_oxy_threshold :: real
  hypoxia_theshold :: real

definition GenericCell :: cell_type where
  "GenericCell =
     \<lparr>seed_radius = 10, mean_cyc_len = 24, std_dev_cyc_len = 1, does_age = True,
      lifespan = 4, g0_oxy_threshold = 1 / 2, hypoxia_theshold = 1 / 4\<rparr>"

text \<open>The instance attributes that \<open>AbstractCellType.__init__\<close> assigns, and the class.\<close>

record cell =
  ctype :: cell_type
  cell_body :: cell_body
  seed_vol :: real
  current_vol :: real
  cyc_len :: int
  g1_len :: int
  current_phase :: string
  current_cyc_iteration :: int
  current_age :: int
  is_dead :: bool

type_synonym outcome = "(error \<times> cell) + cell"

text \<open>The object as a call left it, whether the call returned or raised.\<close>

definition state_after :: "outcome \<Rightarrow> cell" where
  "state_after r = (case r of Inl (e, c) \<Rightarrow> c | Inr c \<Rightarrow> c)"

subsection \<open>The stochastic timing sampler\<close>

text \<open>
  \<open>np.random.normal(loc, scale, size=1)\<close>: numpy raises \<open>ValueError\<close> for a negative
  scale; otherwise the draw is \<open>loc + scale * z\<close>.
\<close>

definition normal :: "real \<Rightarrow> real \<Rightarrow> real \<Rightarrow> error + real" where
  "normal loc scale z =
     (if scale < 0 then Inl (ValueError ''scale < 0'') else Inr (loc + scale * z))"

text \<open>Python's \<open>int(x)\<close> on a float truncates toward zero.\<close>

definition py_int :: "real \<Rightarrow> int" where
  "py_int x = (if 0 \<le> x then \<lfloor>x\<rfloor> else \<lceil>x\<rceil>)"

text \<open>
  \<open>def get_cyc_len(cls, self)\<close>: two positional parameters, of which the body reads
  \<open>cls.mean_cyc_len\<close> and \<open>cls.std_dev_cyc_len\<close>. An argument is represented by the
  class constants reachable from it.
\<close>

fun get_cyc_len :: "cell_type list \<Rightarrow> real \<Rightarrow> error + int" where
  "get_cyc_len [cls, self] z =
     (case normal (mean_cyc_len cls) (std_dev_cyc_len cls) z of
        Inl e \<Rightarrow> Inl e
      | Inr x \<Rightarrow> Inr (py_int x))"
| "get_cyc_len [cls] z =
     Inl (TypeError ''get_cyc_len() missing 1 required positional argument: self'')"
| "get_cyc_len args z =
     Inl (TypeError ''get_cyc_len() takes 2 positional arguments'')"

text \<open>
  \<open>def get_g1_len(self)\<close> reads \<open>self.cyc_len\<close> only; the model takes that field.
\<close>

definition get_g1_len :: "int \<Rightarrow> real \<Rightarrow> error + int" where
  "get_g1_len cyc z =
     (let mean = real_of_int cyc / 2 in
      case normal mean (mean / 10) z of
        Inl e \<Rightarrow> Inl e
      | Inr x \<Rightarrow> Inr (py_int x))"

subsection \<open>The phase handlers of \<open>GenericCell\<close>\<close>

text \<open>
  \<open>g1_phase\<close>: the division \<open>self.seed_vol / self.g1_len\<close> of a float by an int
  raises \<open>ZeroDivisionError\<close> when \<open>g1_len\<close> is \<open>0\<close>; the increment of the
  iteration counter has been executed by then.
\<close>

definition g1_phase :: "cell \<Rightarrow> outcome" where
  "g1_phase c =
     (let c1 = c\<lparr>current_cyc_iteration := current_cyc_iteration c + 1\<rparr> in
      if g1_len c1 = 0 then Inl (ZeroDivisionError, c1)
      else
        let c2 = c1\<lparr>current_vol := current_vol c1 + seed_vol c1 / real_of_int (g1_len c1)\<rparr>;
            c3 = c2\<lparr>cell_body := change_vol (cell_body c2) (current_vol c2)\<rparr>
        in if current_cyc_iteration c3 = g1_len c3 then
             (if get_substance_level (cell_body c3) ''oxygen'' < g0_oxy_threshold (ctype c3)
                 \<or> is_contact_inhibited (cell_body c3) ()
              then Inr (c3\<lparr>current_phase := ''G0''\<rparr>)
              else Inr (c3\<lparr>current_phase := ''S''\<rparr>))
           else Inr c3)"

definition g0_phase :: "cell \<Rightarrow> cell" where
  "g0_phase c =
     (if \<not> is_contact_inhibited (cell_body c) ()
         \<and> g0_oxy_threshold (ctype c) < get_substance_level (cell_body c) ''oxygen''
      then
        (if current_cyc_iteration c = g1_len c
         then c\<lparr>current_phase := ''S''\<rparr>
         else c\<lparr>current_phase := ''M''\<rparr>)
      else c)"

text \<open>
  \<open>s_phase\<close>: the second operand of \<open>or\<close> is the attribute
  \<open>self.cell_body.is_contact_inhibited\<close>, not a call of it.
\<close>

definition s_phase :: "cell \<Rightarrow> cell" where
  "s_phase c =
     (let c1 = c\<lparr>current_cyc_iteration := current_cyc_iteration c + 1\<rparr> in
      if current_cyc_iteration c1 = cyc_len c1 - 1 then
        (if get_substance_level (cell_body c1) ''oxygen'' < g0_oxy_threshold (ctype c1)
            \<or> truth_of_method (is_contact_inhibited (cell_body c1))
         then c1\<lparr>current_phase := ''G0''\<rparr>
         else c1\<lparr>current_phase := ''M''\<rparr>)
      else c1)"

text \<open>
  \<open>m_phase\<close>: the call \<open>self.get_cyc_len()\<close> passes one positional argument, the
  instance. \<open>z1\<close> and \<open>z2\<close> are the draws of the two sampler calls.
\<close>

definition m_phase :: "cell \<Rightarrow> real \<Rightarrow> real \<Rightarrow> outcome" where
  "m_phase c z1 z2 =
     (let c1 = c\<lparr>cell_body := change_volume (cell_body c) (seed_vol c)\<rparr>;
          c2 = c1\<lparr>current_cyc_iteration := 0\<rparr>
      in case get_cyc_len [ctype c2] z1 of
           Inl e \<Rightarrow> Inl (e, c2)
         | Inr n \<Rightarrow>
             (let c3 = c2\<lparr>cyc_len := n\<rparr> in
              case get_g1_len (cyc_len c3) z2 of
                Inl e \<Rightarrow> Inl (e, c3)
              | Inr g \<Rightarrow>
                  (let c4 = c3\<lparr>g1_len := g\<rparr>;
                       c5 = (if does_age (ctype c4)
                             then c4\<lparr>current_age := current_age c4 + 1\<rparr> else c4)
                   in if lifespan (ctype c5) < current_age c5
                      then Inr (c5\<lparr>is_dead := True\<rparr>) else Inr c5)))"

definition hypoxic_death :: "cell \<Rightarrow> cell" where
  "hypoxic_death c =
     (if get_substance_level (cell_body c) ''oxygen'' < hypoxia_theshold (ctype c)
      then c\<lparr>is_dead := True\<rparr> else c)"

text \<open>The per-tick dispatcher.\<close>

definition do_cell_cycle :: "cell \<Rightarrow> real \<Rightarrow> real \<Rightarrow> outcome" where
  "do_cell_cycle c z1 z2 =
     (if current_phase c = ''G0'' then Inr (g0_phase c)
      else if current_phase c = ''G1'' then g1_phase c
      else if current_phase c = ''S'' then Inr (s_phase c)
      else m_phase c z1 z2)"

subsection \<open>Repeated executions of the M handler\<close>

text \<open>
  The object after the M handler has been executed once for every pair of draws of the
  list, each execution on the object as the previous one left it.
\<close>

fun m_phase_executions :: "(real \<times> real) list \<Rightarrow> cell \<Rightarrow> cell" where
  "m_phase_executions [] c = c"
| "m_phase_executions (z # zs) c =
     m_phase_executions zs (state_after (m_phase c (fst z) (snd z)))"

subsection \<open>Construction\<close>

text \<open>
  A positional argument of a constructor call: an object of a cell class, represented
  by the class constants reachable from it, or a position (of whatever type
  \<open>CellBody\<close> takes).
\<close>

datatype 'p arg = Object cell_type | Position 'p

text \<open>
  \<open>def __init__(cls, self, pos)\<close> of \<open>AbstractCellType\<close>: three positional parameters.
  \<open>new_body\<close> stands for the constructor of the absent class \<open>CellBody\<close>. The call
  \<open>self.get_cyc_len()\<close> passes one positional argument.
\<close>

fun AbstractCellType_init ::
  "'p arg list \<Rightarrow> ('p \<Rightarrow> real \<Rightarrow> cell_body) \<Rightarrow> real \<Rightarrow> real \<Rightarrow> error + cell" where
  "AbstractCellType_init [Object cls, Object self, Position pos] new_body z1 z2 =
     (let body = new_body pos (seed_radius cls);
          sv = 4 / 3 * pi * seed_radius cls ^ 3
      in case get_cyc_len [self] z1 of
           Inl e \<Rightarrow> Inl e
         | Inr n \<Rightarrow>
             (case get_g1_len n z2 of
                Inl e \<Rightarrow> Inl e
              | Inr g \<Rightarrow>
                  Inr \<lparr>ctype = self, cell_body = body, seed_vol = sv, current_vol = sv,
                       cyc_len = n, g1_len = g, current_phase = ''G1'',
                       current_cyc_iteration = 0, current_age = 0, is_dead = False\<rparr>))"
| "AbstractCellType_init [a, b, c] new_body z1 z2 =
     Inl (AttributeError ''an argument lacks an attribute the body reads'')"
| "AbstractCellType_init [a] new_body z1 z2 =
     Inl (TypeError ''__init__() missing 2 required positional arguments: self and pos'')"
| "AbstractCellType_init args new_body z1 z2 =
     Inl (TypeError ''__init__() takes 3 positional arguments'')"

text \<open>
  \<open>def __init__(self)\<close> of \<open>GenericCell\<close>, whose body is \<open>super().__init__()\<close>: the
  bound call passes the instance and nothing else.
\<close>

fun GenericCell_init ::
  "'p arg list \<Rightarrow> ('p \<Rightarrow> real \<Rightarrow> cell_body) \<Rightarrow> real \<Rightarrow> real \<Rightarrow> error + cell" where
  "GenericCell_init [self] new_body z1 z2 = AbstractCellType_init [self] new_body z1 z2"
| "GenericCell_init args new_body z1 z2 =
     Inl (TypeError ''__init__() takes 1 positional argument'')"

definition cell_type_attributes :: "string list" where
  "cell_type_attributes =
     [''seed_radius'', ''mean_cyc_len'', ''std_dev_cyc_len'', ''does_age'', ''lifespan'']"

text \<open>
  The loop of \<open>CellTypeAttributesMeta.__call__\<close>: the first required attribute the
  instance lacks raises \<open>NotImplementedError\<close> with its name.
\<close>

fun missing_attribute :: "(string \<Rightarrow> bool) \<Rightarrow> string list \<Rightarrow> error option" where
  "missing_attribute has [] = None"
| "missing_attribute has (attr # attrs) =
     (if has attr then missing_attribute has attrs
      else Some (NotImplementedError (''Missing required class attribute: '' @ attr)))"

text \<open>
  \<open>CellTypeAttributesMeta.__call__\<close>: \<open>super().__call__(*args, **kwargs)\<close> creates the
  instance and runs \<open>__init__\<close> first (\<open>super_call\<close> is its result); the attribute
  check follows when that has returned.
\<close>

definition CellTypeAttributesMeta_call ::
  "error + 'i \<Rightarrow> ('i \<Rightarrow> string \<Rightarrow> bool) \<Rightarrow> error + 'i" where
  "CellTypeAttributesMeta_call super_call hasattr =
     (case super_call of
        Inl e \<Rightarrow> Inl e
      | Inr inst \<Rightarrow>
          (case missing_attribute (hasattr inst) cell_type_attributes of
             Some e \<Rightarrow> Inl e
           | None \<Rightarrow> Inr inst))"

text \<open>
  The data attributes of class \<open>GenericCell\<close>, and \<open>hasattr\<close> on an instance of it:
  the names \<open>__init__\<close> assigns and the names of the class.
\<close>

definition GenericCell_attributes :: "string list" where
  "GenericCell_attributes =
     [''seed_radius'', ''mean_cyc_len'', ''std_dev_cyc_len'', ''does_age'', ''lifespan'',
      ''g0_oxy_threshold'', ''hypoxia_theshold'']"

definition instance_attributes :: "string list" where
  "instance_attributes =
     [''cell_body'', ''seed_vol'', ''current_vol'', ''cyc_len'', ''g1_len'',
      ''current_phase'', ''current_cyc_iteration'', ''current_age'', ''is_dead'']"

definition hasattr_GenericCell :: "cell \<Rightarrow> string \<Rightarrow> bool" where
  "hasattr_GenericCell inst attr =
     (attr \<in> set instance_attributes \<or> attr \<in> set GenericCell_attributes)"

text \<open>
  The expression \<open>GenericCell(*args)\<close>: the metaclass call around \<open>type.__call__\<close>,
  which passes the new instance and \<open>args\<close> to \<open>GenericCell.__init__\<close>.
  (\<open>GenericCell\<close> overrides all eight abstract methods, so \<open>__new__\<close> does not refuse
  the class.)
\<close>

definition new_GenericCell ::
  "'p arg list \<Rightarrow> ('p \<Rightarrow> real \<Rightarrow> cell_body) \<Rightarrow> real \<Rightarrow> real \<Rightarrow> error + cell" where
  "new_GenericCell args new_body z1 z2 =
     CellTypeAttributesMeta_call
       (GenericCell_init (Object GenericCell # args) new_body z1 z2) hasattr_GenericCell"

subsection \<open>Concrete cells\<close>

text \<open>
  A \<open>GenericCell\<close> of seed radius 10 with cycle length 24 and G1 length 12, in a given
  phase and at a given iteration, in surroundings with a given oxygen level and
  contact-inhibition flag.
\<close>

definition example_body :: "real \<Rightarrow> bool \<Rightarrow> cell_body" where
  "example_body oxy ci =
     \<lparr>substance = (\<lambda>name. if name = ''oxygen'' then oxy else 0),
      contact_inhibited = ci, vol = 4 / 3 * pi * 10 ^ 3\<rparr>"

definition example_cell :: "string \<Rightarrow> int \<Rightarrow> real \<Rightarrow> bool \<Rightarrow> cell" where
  "example_cell ph it oxy ci =
     \<lparr>ctype = GenericCell, cell_body = example_body oxy ci,
      seed_vol = 4 / 3 * pi * 10 ^ 3, current_vol = 4 / 3 * pi * 10 ^ 3,
      cyc_len = 24, g1_len = 12, current_phase = ph, current_cyc_iteration = it,
      current_age = 0, is_dead = False\<rparr>"

section \<open>Properties\<close>

subsection \<open>Evaluation of the concrete cells\<close>

lemma oxygen_example [simp]:
  "get_substance_level (cell_body (example_cell ph it oxy ci)) ''oxygen'' = oxy"
  by (simp add: example_cell_def example_body_def get_substance_level_def)

lemma inhibited_example [simp]:
  "is_contact_inhibited (cell_body (example_cell ph it oxy ci)) () = ci"
  by (simp add: example_cell_def example_body_def is_contact_inhibited_def)

lemma fields_example [simp]:
  "ctype (example_cell ph it oxy ci) = GenericCell"
  "current_phase (example_cell ph it oxy ci) = ph"
  "current_cyc_iteration (example_cell ph it oxy ci) = it"
  "g1_len (example_cell ph it oxy ci) = 12"
  "cyc_len (example_cell ph it oxy ci) = 24"
  "is_dead (example_cell ph it oxy ci) = False"
  "current_age (example_cell ph it oxy ci) = 0"
  "seed_vol (example_cell ph it oxy ci) = 4 / 3 * pi * 10 ^ 3"
  "current_vol (example_cell ph it oxy ci) = 4 / 3 * pi * 10 ^ 3"
  by (simp_all add: example_cell_def)

lemma constants_GenericCell [simp]:
  "g0_oxy_threshold GenericCell = 1 / 2"
  "hypoxia_theshold GenericCell = 1 / 4"
  "does_age GenericCell"
  "lifespan GenericCell = 4"
  by (simp_all add: GenericCell_def)

subsection \<open>The M handler\<close>

text \<open>
  Every execution of \<open>m_phase\<close> raises at \<open>self.cyc_len = self.get_cyc_len()\<close>: the
  bound call supplies one argument to a function of two parameters. The body volume
  and the iteration counter have been reset by then; nothing after the call runs.
\<close>

lemma m_phase_raises:
  "m_phase c z1 z2 =
     Inl (TypeError ''get_cyc_len() missing 1 required positional argument: self'',
          c\<lparr>cell_body := change_volume (cell_body c) (seed_vol c),
            current_cyc_iteration := 0\<rparr>)"
  by (simp add: m_phase_def Let_def)

text \<open>
  The source of \<open>m_phase\<close> has no assignment to \<open>current_phase\<close> or \<open>current_vol\<close>,
  and neither has its model: the object keeps both, on every path through the body.
\<close>

lemma m_phase_keeps_phase:
  "current_phase (state_after (m_phase c z1 z2)) = current_phase c"
  by (simp add: m_phase_def Let_def state_after_def split: sum.splits)

lemma m_phase_keeps_current_vol:
  "current_vol (state_after (m_phase c z1 z2)) = current_vol c"
  by (simp add: m_phase_def Let_def state_after_def split: sum.splits)

lemma m_phase_executions_unchanged:
  "current_age (m_phase_executions zs c) = current_age c
   \<and> is_dead (m_phase_executions zs c) = is_dead c"
  by (induction zs arbitrary: c) (simp_all add: m_phase_raises state_after_def)

subsection \<open>The G1 handler\<close>



lemma py_int_0 [simp]: "py_int 0 = 0"
  by (simp add: py_int_def)


subsection \<open>The metaclass check\<close>

lemma missing_attribute_None:
  "missing_attribute has attrs = None \<longleftrightarrow> list_all has attrs"
  by (induction attrs) simp_all

lemma missing_attribute_Some:
  assumes "missing_attribute has attrs = Some e"
  shows "\<exists>attr \<in> set attrs. \<not> has attr
            \<and> e = NotImplementedError (''Missing required class attribute: '' @ attr)"
  using assms by (induction attrs) (auto split: if_splits)

text \<open>
  Once \<open>__init__\<close> has returned an instance, the metaclass call returns it exactly when
  the instance has all five required attributes, and otherwise raises
  \<open>NotImplementedError\<close> naming a missing one.
\<close>

lemma CellTypeAttributesMeta_call_returns:
  "CellTypeAttributesMeta_call (Inr inst) hasattr = Inr inst
     \<longleftrightarrow> list_all (hasattr inst) cell_type_attributes"
  by (simp add: CellTypeAttributesMeta_call_def missing_attribute_None [symmetric]
      split: option.splits)

lemma CellTypeAttributesMeta_call_raises:
  assumes "\<not> list_all (hasattr inst) cell_type_attributes"
  shows "\<exists>attr \<in> set cell_type_attributes. \<not> hasattr inst attr
           \<and> CellTypeAttributesMeta_call (Inr inst) hasattr
             = Inl (NotImplementedError (''Missing required class attribute: '' @ attr))"
proof -
  from assms obtain e where
    e: "missing_attribute (hasattr inst) cell_type_attributes = Some e"
    using missing_attribute_None [of "hasattr inst" cell_type_attributes] by auto
  from missing_attribute_Some [OF e] e show ?thesis
    by (auto simp add: CellTypeAttributesMeta_call_def)
qed

lemma GenericCell_init_raises:
  "\<exists>msg. GenericCell_init (Object GenericCell # args) new_body z1 z2 = Inl (TypeError msg)"
  by (cases args) simp_all

section \<open>The claims\<close>

text \<open>
  C1. For every cell in phase S whose incremented iteration counter equals
  \<open>cyc_len - 1\<close>, one tick sets the phase to M when the oxygen level is at or above
  \<open>g0_oxy_threshold\<close> and the cell is not contact-inhibited, and to G0 otherwise, the
  arrest condition being evaluated as at the G1 exit.

  The code does otherwise: at that boundary the tick sets the phase to G0 whatever the
  oxygen level and the contact-inhibition flag are, because \<open>s_phase\<close> tests the method
  object \<open>is_contact_inhibited\<close> where \<open>g1_phase\<close> tests the result of calling it.
  The theorem states what the tick does; its instance below is a cell with oxygen
  \<open>1.0\<close> and no contact inhibition, which the claim sends to M.
\<close>

theorem s_phase_exit_goes_to_G0:
  assumes "current_phase c = ''S''"
    and "current_cyc_iteration c + 1 = cyc_len c - 1"
  shows "do_cell_cycle c z1 z2
         = Inr (c\<lparr>current_cyc_iteration := current_cyc_iteration c + 1,
                 current_phase := ''G0''\<rparr>)"
  using assms by (simp add: do_cell_cycle_def s_phase_def Let_def truth_of_method_def)

theorem s_phase_exit_goes_to_G0_witness:
  "g0_oxy_threshold (ctype (example_cell ''S'' 22 1 False))
     \<le> get_substance_level (cell_body (example_cell ''S'' 22 1 False)) ''oxygen''
   \<and> is_contact_inhibited (cell_body (example_cell ''S'' 22 1 False)) () = False
   \<and> do_cell_cycle (example_cell ''S'' 22 1 False) 0 0
     = Inr ((example_cell ''S'' 22 1 False)
              \<lparr>current_cyc_iteration := 23, current_phase := ''G0''\<rparr>)"
  using s_phase_exit_goes_to_G0 [of "example_cell ''S'' 22 1 False" 0 0]
  by simp

text \<open>
  C2. For every live cell whose phase is M, after the M tick the next call of
  \<open>do_cell_cycle\<close> runs the G1 handler, unless the M tick marked the cell dead.

  The code does otherwise: the M tick raises (see \<open>m_phase_raises\<close>) and leaves the phase
  at M and the death flag as it was, and no branch of \<open>m_phase\<close> assigns the phase
  (\<open>m_phase_keeps_phase\<close>); the next call of \<open>do_cell_cycle\<close> runs the M handler again.
\<close>

theorem m_phase_tick_stays_in_M:
  assumes "current_phase c = ''M''"
  shows "\<exists>e c'. do_cell_cycle c z1 z2 = Inl (e, c') \<and> current_phase c' = ''M''
           \<and> is_dead c' = is_dead c
           \<and> do_cell_cycle c' z3 z4 = m_phase c' z3 z4"
  using assms by (simp add: do_cell_cycle_def m_phase_raises)

theorem m_phase_tick_stays_in_M_witness:
  "\<exists>e c'. do_cell_cycle (example_cell ''M'' 23 1 False) 0 0 = Inl (e, c')
      \<and> current_phase c' = ''M'' \<and> is_dead c' = is_dead (example_cell ''M'' 23 1 False)
      \<and> do_cell_cycle c' 0 0 = m_phase c' 0 0"
  using m_phase_tick_stays_in_M [of "example_cell ''M'' 23 1 False" 0 0 0 0]
  by simp

text \<open>
  C3. For every cell, immediately after the M handler has executed, \<open>current_vol\<close>
  equals \<open>seed_vol\<close>, the iteration counter is \<open>0\<close>, and \<open>cyc_len\<close> and \<open>g1_len\<close> have
  been resampled.

  The code does otherwise: the handler resets the volume of the cell body and the
  iteration counter, then raises at the first sampler call; \<open>current_vol\<close>, \<open>cyc_len\<close>
  and \<open>g1_len\<close> are as they were before the call.
\<close>

theorem m_phase_no_reset:
  "\<exists>e c'. m_phase c z1 z2 = Inl (e, c')
      \<and> current_vol c' = current_vol c \<and> cyc_len c' = cyc_len c \<and> g1_len c' = g1_len c
      \<and> current_cyc_iteration c' = 0 \<and> vol (cell_body c') = seed_vol c"
  by (simp add: m_phase_raises change_volume_def)

text \<open>
  C4. Constructing a cell of a type that lacks one of the five required constants
  fails with a configuration error naming the constant, and constructing a cell of a
  type that supplies all five always succeeds.

  The code does otherwise for the one concrete type of the source: \<open>GenericCell\<close>
  supplies all five (the attribute check finds nothing missing on an instance), and yet
  \<open>GenericCell(*args)\<close> raises \<open>TypeError\<close> for every argument list, because
  \<open>GenericCell.__init__\<close> calls \<open>super().__init__()\<close> with no argument and
  \<open>AbstractCellType.__init__\<close> declares the parameters \<open>(cls, self, pos)\<close>. The raise
  happens inside \<open>super().__call__\<close>, before the attribute check.
\<close>

theorem GenericCell_construction_fails:
  "missing_attribute (hasattr_GenericCell inst) cell_type_attributes = None
   \<and> (\<exists>msg. new_GenericCell args new_body z1 z2 = Inl (TypeError msg))"
proof
  show "missing_attribute (hasattr_GenericCell inst) cell_type_attributes = None"
    by (simp add: cell_type_attributes_def hasattr_GenericCell_def GenericCell_attributes_def)
next
  from GenericCell_init_raises [of args new_body z1 z2]
  show "\<exists>msg. new_GenericCell args new_body z1 z2 = Inl (TypeError msg)"
    by (auto simp add: new_GenericCell_def CellTypeAttributesMeta_call_def)
qed



text \<open>
  C6. For every cell in phase G0 ticked when it is not contact-inhibited and the
  oxygen level exceeds \<open>g0_oxy_threshold\<close>, the tick sets the phase to S if the
  iteration counter equals \<open>g1_len\<close> and to M if it does not; under any other condition
  of the surroundings the tick leaves the cell as it was (in G0, iteration counter and
  volume unchanged).
\<close>

theorem g0_resumption:
  assumes "current_phase c = ''G0''"
  shows "(\<not> is_contact_inhibited (cell_body c) ()
            \<and> g0_oxy_threshold (ctype c) < get_substance_level (cell_body c) ''oxygen''
          \<longrightarrow> do_cell_cycle c z1 z2
               = Inr (c\<lparr>current_phase :=
                          if current_cyc_iteration c = g1_len c then ''S'' else ''M''\<rparr>))
       \<and> (\<not> (\<not> is_contact_inhibited (cell_body c) ()
               \<and> g0_oxy_threshold (ctype c) < get_substance_level (cell_body c) ''oxygen'')
          \<longrightarrow> do_cell_cycle c z1 z2 = Inr c)"
  using assms by (simp add: do_cell_cycle_def g0_phase_def)

theorem g0_resumption_witness:
  "do_cell_cycle (example_cell ''G0'' 12 1 False) 0 0
     = Inr ((example_cell ''G0'' 12 1 False)\<lparr>current_phase := ''S''\<rparr>)
   \<and> do_cell_cycle (example_cell ''G0'' 23 1 False) 0 0
     = Inr ((example_cell ''G0'' 23 1 False)\<lparr>current_phase := ''M''\<rparr>)
   \<and> do_cell_cycle (example_cell ''G0'' 12 (1 / 2) False) 0 0
     = Inr (example_cell ''G0'' 12 (1 / 2) False)
   \<and> do_cell_cycle (example_cell ''G0'' 12 1 True) 0 0
     = Inr (example_cell ''G0'' 12 1 True)"
  using g0_resumption [of "example_cell ''G0'' 12 1 False" 0 0]
    g0_resumption [of "example_cell ''G0'' 23 1 False" 0 0]
    g0_resumption [of "example_cell ''G0'' 12 (1 / 2) False" 0 0]
    g0_resumption [of "example_cell ''G0'' 12 1 True" 0 0]
  by simp

text \<open>
  C7. For an aging cell type with lifespan \<open>N\<close> and a cell starting at age \<open>0\<close>, the
  cell is dead immediately after its \<open>(N+1)\<close>-th execution of the M handler and not
  dead immediately after its \<open>N\<close>-th.

  The code does otherwise: every execution of the M handler raises before the
  statements that increment the age and compare it with the lifespan, so no number of
  executions changes \<open>current_age\<close> or \<open>is_dead\<close>. For \<open>GenericCell\<close> (lifespan 4) and
  a live cell of age 0, the cell is still alive and of age 0 after its fifth execution.
\<close>

theorem m_phase_never_ages:
  "is_dead (m_phase_executions zs c) = is_dead c
   \<and> current_age (m_phase_executions zs c) = current_age c
   \<and> lifespan (ctype (example_cell ''M'' 23 1 False)) = 4
   \<and> does_age (ctype (example_cell ''M'' 23 1 False))
   \<and> \<not> is_dead (m_phase_executions [(0, 0), (0, 0), (0, 0), (0, 0), (0, 0)]
                  (example_cell ''M'' 23 1 False))"
  using m_phase_executions_unchanged [of zs c]
    m_phase_executions_unchanged
      [of "[(0, 0), (0, 0), (0, 0), (0, 0), (0, 0)]" "example_cell ''M'' 23 1 False"]
  by simp

text \<open>
  C8. For every cell, in any phase and at any iteration count, \<open>hypoxic_death\<close> sets
  \<open>is_dead\<close> exactly when the oxygen level read from the cell body is strictly below
  \<open>hypoxia_theshold\<close>, and leaves \<open>is_dead\<close> and all other state of the cell unchanged
  when the oxygen level is at or above it.
\<close>

theorem hypoxic_death_threshold:
  "(get_substance_level (cell_body c) ''oxygen'' < hypoxia_theshold (ctype c)
      \<longrightarrow> hypoxic_death c = c\<lparr>is_dead := True\<rparr>)
   \<and> (\<not> get_substance_level (cell_body c) ''oxygen'' < hypoxia_theshold (ctype c)
      \<longrightarrow> hypoxic_death c = c)"
  by (simp add: hypoxic_death_def)

theorem hypoxic_death_threshold_witness:
  "hypoxic_death (example_cell ''S'' 17 (1 / 10) False)
     = (example_cell ''S'' 17 (1 / 10) False)\<lparr>is_dead := True\<rparr>
   \<and> hypoxic_death (example_cell ''G1'' 3 (1 / 4) True) = example_cell ''G1'' 3 (1 / 4) True"
  using hypoxic_death_threshold [of "example_cell ''S'' 17 (1 / 10) False"]
    hypoxic_death_threshold [of "example_cell ''G1'' 3 (1 / 4) True"]
  by simp



end
